theory Spec2Isabelle
  imports Complex_Main
begin

section \<open>Tables\<close>

text \<open>
  \<^verbatim>\<open>find_coordinator.py\<close> works on two pandas data frames read by \<^verbatim>\<open>pd.read_csv\<close>.
  A cell is a missing value (NaN), a string or a number. A frame is its list of column
  names and its rows, each row aligned with the column names; a row shorter than the
  header reads as NaN in the columns it lacks, as \<^verbatim>\<open>read_csv\<close> pads it.
  A number is the value of an \<^verbatim>\<open>int64\<close> or \<^verbatim>\<open>float64\<close> cell, as a real number.
\<close>

datatype cell = Null | Str string | Num real

record dataframe =
  columns :: "string list"
  rows :: "cell list list"

text \<open>The exceptions the function can let escape.\<close>

datatype error =
    KeyError string
  | AttributeError string
  | ValueError string
  | OtherError string

definition cell_of :: "string list \<Rightarrow> cell list \<Rightarrow> string \<Rightarrow> cell" where
  "cell_of cols r c = (case map_of (zip cols r) c of Some v \<Rightarrow> v | None \<Rightarrow> Null)"

text \<open>\<^verbatim>\<open>row.get(key, default)\<close> on a row of the frame.\<close>

definition series_get :: "string list \<Rightarrow> cell list \<Rightarrow> string \<Rightarrow> cell \<Rightarrow> cell" where
  "series_get cols r k d = (if k \<in> set cols then cell_of cols r k else d)"

definition column_values :: "dataframe \<Rightarrow> string \<Rightarrow> cell list" where
  "column_values df c = map (\<lambda>r. cell_of (columns df) r c) (rows df)"

fun is_str :: "cell \<Rightarrow> bool" where
  "is_str (Str s) = True"
| "is_str c = False"

fun is_null :: "cell \<Rightarrow> bool" where
  "is_null Null = True"
| "is_null c = False"

fun is_fraction :: "cell \<Rightarrow> bool" where
  "is_fraction (Num x) = (of_int \<lfloor>x\<rfloor> \<noteq> x)"
| "is_fraction c = False"

text \<open>
  The dtype \<^verbatim>\<open>read_csv\<close> gives a column: \<^verbatim>\<open>object\<close> when the frame has no row or
  the column holds a string, otherwise numeric, and \<^verbatim>\<open>float64\<close> when a numeric column
  has a missing value or a number that is not an integer.
\<close>

definition object_dtype :: "dataframe \<Rightarrow> string \<Rightarrow> bool" where
  "object_dtype df c = (rows df = [] \<or> list_ex is_str (column_values df c))"

definition float_dtype :: "dataframe \<Rightarrow> string \<Rightarrow> bool" where
  "float_dtype df c =
     (\<not> object_dtype df c \<and>
      (list_ex is_null (column_values df c) \<or> list_ex is_fraction (column_values df c)))"

section \<open>Library functions\<close>

text \<open>
  Three functions of the libraries decide what \<^verbatim>\<open>find_coordinators\<close> computes and are not
  part of this repository; the model takes them as parameters.
  \<^item> \<open>analyzer\<close>: the analyzer of scikit-learn's
    \<^verbatim>\<open>TfidfVectorizer(stop_words='english')\<close>, from a text to its tokens (the text
    lower-cased, the runs of two or more word characters, the English stop words dropped).
  \<^item> \<open>num_str\<close>: Python's \<^verbatim>\<open>str\<close> of a number; the flag says that the number is a
    \<^verbatim>\<open>float64\<close> (\<^verbatim>\<open>str\<close> prints 5 as \<^verbatim>\<open>5\<close> in an \<^verbatim>\<open>int64\<close> column and as
    \<^verbatim>\<open>5.0\<close> in a \<^verbatim>\<open>float64\<close> column).
  \<^item> \<open>argsort\<close>: numpy's \<^verbatim>\<open>argsort\<close> with its default kind, which is not stable: the
    order it gives equal values is not specified.
\<close>

record library =
  analyzer :: "string \<Rightarrow> string list"
  num_str :: "bool \<Rightarrow> real \<Rightarrow> string"
  argsort :: "real list \<Rightarrow> nat list"

text \<open>
  What numpy documents of \<^verbatim>\<open>argsort\<close>: the result holds every index of the array once
  and lists the values in ascending order.
\<close>

definition argsort_ok :: "(real list \<Rightarrow> nat list) \<Rightarrow> bool" where
  "argsort_ok srt =
     (\<forall>xs. length (srt xs) = length xs \<and> set (srt xs) = {0..<length xs} \<and>
           sorted (map (\<lambda>i. xs ! i) (srt xs)))"

section \<open>Strings\<close>

definition lower_char :: "char \<Rightarrow> char" where
  "lower_char c =
     (case map_of (zip ''ABCDEFGHIJKLMNOPQRSTUVWXYZ'' ''abcdefghijklmnopqrstuvwxyz'') c of
        Some l \<Rightarrow> l
      | None \<Rightarrow> c)"

text \<open>\<^verbatim>\<open>str.lower()\<close>, on ASCII.\<close>

definition lower :: "string \<Rightarrow> string" where
  "lower s = map lower_char s"

text \<open>
  \<^verbatim>\<open>.fillna('').astype(str)\<close> on one cell: a missing value is the empty string, a
  string is itself, and a number is printed by \<^verbatim>\<open>str\<close>.
\<close>

fun cell_text :: "library \<Rightarrow> bool \<Rightarrow> cell \<Rightarrow> string" where
  "cell_text lib fl Null = ''''"
| "cell_text lib fl (Str s) = s"
| "cell_text lib fl (Num x) = num_str lib fl x"

section \<open>Combined text (lines 74 to 89)\<close>

definition text_column :: "library \<Rightarrow> dataframe \<Rightarrow> string \<Rightarrow> string list" where
  "text_column lib df c = map (cell_text lib (float_dtype df c)) (column_values df c)"

definition text_cols :: "dataframe \<Rightarrow> string list" where
  "text_cols df = filter (\<lambda>c. c \<in> set (columns df)) [''title'', ''objective'', ''topics'']"

definition text_data :: "library \<Rightarrow> dataframe \<Rightarrow> string list list" where
  "text_data lib df = map (text_column lib df) (text_cols df)"

text \<open>\<^verbatim>\<open>combined += ' ' + col_data\<close>, row by row.\<close>

definition add_col :: "string list \<Rightarrow> string list \<Rightarrow> string list" where
  "add_col acc col = map (\<lambda>(a, b). a @ '' '' @ b) (zip acc col)"

text \<open>\<open>None\<close> is the early \<^verbatim>\<open>return\<close> of line 85: no text column was found.\<close>

definition combined_text :: "library \<Rightarrow> dataframe \<Rightarrow> string list option" where
  "combined_text lib df =
     (case text_data lib df of [] \<Rightarrow> None | t # ts \<Rightarrow> Some (foldl add_col t ts))"

text \<open>
  The specification's wording of the same text, to compare with: the strings joined
  with single spaces (\<^verbatim>\<open>' '.join\<close>), nothing for an empty list.
\<close>

fun join_space :: "string list \<Rightarrow> string" where
  "join_space [] = []"
| "join_space [x] = x"
| "join_space (x # y # zs) = x @ '' '' @ join_space (y # zs)"

section \<open>Coordinator resolution (lines 128 to 132)\<close>

text \<open>
  \<^verbatim>\<open>==\<close> between a cell and the project identifier: equal strings or equal numbers;
  a missing value equals nothing, itself included.
\<close>

fun cell_eq :: "cell \<Rightarrow> cell \<Rightarrow> bool" where
  "cell_eq (Str a) (Str b) = (a = b)"
| "cell_eq (Num a) (Num b) = (a = b)"
| "cell_eq a b = False"

text \<open>\<^verbatim>\<open>.str.lower()\<close> on one cell of an \<^verbatim>\<open>object\<close> column.\<close>

fun str_lower :: "cell \<Rightarrow> cell" where
  "str_lower (Str s) = Str (lower s)"
| "str_lower c = Null"

text \<open>\<^verbatim>\<open>orgs_df[orgs_df['projectID'] == project_id]\<close>\<close>

definition project_orgs :: "dataframe \<Rightarrow> cell \<Rightarrow> error + dataframe" where
  "project_orgs orgs pid =
     (if ''projectID'' \<in> set (columns orgs)
      then Inr (orgs\<lparr>rows := filter (\<lambda>r. cell_eq (cell_of (columns orgs) r ''projectID'') pid)
                                 (rows orgs)\<rparr>)
      else Inl (KeyError ''projectID''))"

text \<open>
  The role filter. The \<^verbatim>\<open>.str\<close> accessor raises \<^verbatim>\<open>AttributeError\<close> on a column
  that is not of strings; the selection keeps the dtype of the whole column.
\<close>

definition find_project_coordinators :: "dataframe \<Rightarrow> cell \<Rightarrow> error + dataframe" where
  "find_project_coordinators orgs pid =
     (case project_orgs orgs pid of
        Inl e \<Rightarrow> Inl e
      | Inr po \<Rightarrow>
          if ''role'' \<in> set (columns po)
          then if object_dtype orgs ''role''
               then Inr (po\<lparr>rows := filter (\<lambda>r. cell_eq (str_lower (cell_of (columns po) r ''role''))
                                                  (Str ''coordinator''))
                                        (rows po)\<rparr>)
               else Inl (AttributeError ''Can only use .str accessor with string values!'')
          else Inr \<lparr>columns = [], rows = []\<rparr>)"

text \<open>\<^verbatim>\<open>DataFrame.empty\<close>: some axis has length zero.\<close>

definition empty :: "dataframe \<Rightarrow> bool" where
  "empty df = (columns df = [] \<or> rows df = [])"

section \<open>Text similarity (lines 92 to 100)\<close>

text \<open>
  The vectorizer of line 92, fitted on the combined texts: the vocabulary is the set of the
  tokens of the documents, a term is weighted by its count times its smoothed inverse
  document frequency, and the rows are scaled to Euclidean norm 1. Weights and similarities
  are real numbers.
\<close>

definition vocabulary :: "library \<Rightarrow> string list \<Rightarrow> string list" where
  "vocabulary lib docs = remdups (concat (map (analyzer lib) docs))"

definition doc_freq :: "library \<Rightarrow> string list \<Rightarrow> string \<Rightarrow> nat" where
  "doc_freq lib docs t = length (filter (\<lambda>d. t \<in> set (analyzer lib d)) docs)"

text \<open>Smoothed inverse document frequency.\<close>

definition idf :: "library \<Rightarrow> string list \<Rightarrow> string \<Rightarrow> real" where
  "idf lib docs t = ln ((1 + real (length docs)) / (1 + real (doc_freq lib docs t))) + 1"

text \<open>Rows of norm zero are left as they are.\<close>

definition l2_normalize :: "real list \<Rightarrow> real list" where
  "l2_normalize v =
     (let n = sqrt (sum_list (map (\<lambda>x. x * x) v)) in if n = 0 then v else map (\<lambda>x. x / n) v)"

definition tfidf_row :: "library \<Rightarrow> string list \<Rightarrow> string \<Rightarrow> real list" where
  "tfidf_row lib docs text =
     l2_normalize (map (\<lambda>t. real (count_list (analyzer lib text) t) * idf lib docs t)
                       (vocabulary lib docs))"

definition dot :: "real list \<Rightarrow> real list \<Rightarrow> real" where
  "dot u v = sum_list (map (\<lambda>(a, b). a * b) (zip u v))"

definition cosine_similarity :: "real list \<Rightarrow> real list list \<Rightarrow> real list" where
  "cosine_similarity q X = map (\<lambda>d. dot (l2_normalize q) (l2_normalize d)) X"

text \<open>
  \<^verbatim>\<open>fit_transform\<close> raises \<^verbatim>\<open>ValueError\<close> when no document has a token; otherwise
  there is one similarity per document.
\<close>

definition similarities :: "library \<Rightarrow> string list \<Rightarrow> string \<Rightarrow> error + real list" where
  "similarities lib docs query =
     (if vocabulary lib docs = []
      then Inl (ValueError ''empty vocabulary; perhaps the documents only contain stop words'')
      else Inr (cosine_similarity (tfidf_row lib docs query) (map (tfidf_row lib docs) docs)))"

section \<open>Ranking (line 103)\<close>

text \<open>
  The slice \<^verbatim>\<open>a[-n:]\<close>: the last \<open>n\<close> elements for a positive \<open>n\<close> (all of them when
  \<open>n\<close> exceeds the length); \<^verbatim>\<open>a[0:]\<close>, the whole list, for \<open>n = 0\<close>; and
  \<^verbatim>\<open>a[k:]\<close> for \<open>n = - k\<close>.
\<close>

definition last_slice :: "int \<Rightarrow> 'a list \<Rightarrow> 'a list" where
  "last_slice n xs = (if 0 < n then drop (length xs - nat n) xs else drop (nat (- n)) xs)"

text \<open>\<^verbatim>\<open>similarities.argsort()[-n_top:][::-1]\<close>\<close>

definition top_indices :: "library \<Rightarrow> real list \<Rightarrow> int \<Rightarrow> nat list" where
  "top_indices lib sims n_top = rev (last_slice n_top (argsort lib sims))"

section \<open>Result rows (lines 109 to 166)\<close>

text \<open>Rounding to the nearest integer, a tie to the even one.\<close>

definition round_half_even :: "real \<Rightarrow> int" where
  "round_half_even x =
     (let f = \<lfloor>x\<rfloor>; d = x - of_int f
      in if d < 1 / 2 then f else if 1 / 2 < d then f + 1 else if even f then f else f + 1)"

text \<open>\<^verbatim>\<open>round(sim_score, 4)\<close>\<close>

definition round4 :: "real \<Rightarrow> real" where
  "round4 x = of_int (round_half_even (x * 10000)) / 10000"

record result_row =
  similarity_score :: real
  project_id :: cell
  project_acronym :: cell
  project_title :: cell
  start_date :: cell
  end_date :: cell
  coordinator_name :: cell
  coordinator_country :: cell
  coordinator_city :: cell

definition Unknown :: cell where
  "Unknown = Str ''Unknown''"

text \<open>\<^verbatim>\<open>project.get('projectID', project.get('id', 'Unknown'))\<close>\<close>

definition project_id_of :: "dataframe \<Rightarrow> cell list \<Rightarrow> cell" where
  "project_id_of projects project =
     series_get (columns projects) project ''projectID''
       (series_get (columns projects) project ''id'' Unknown)"

definition base_row :: "dataframe \<Rightarrow> cell list \<Rightarrow> real \<Rightarrow> cell \<Rightarrow> cell \<Rightarrow> cell \<Rightarrow> result_row" where
  "base_row projects project sim_score name country city =
     \<lparr>similarity_score = round4 sim_score,
      project_id = project_id_of projects project,
      project_acronym = series_get (columns projects) project ''acronym'' Unknown,
      project_title = series_get (columns projects) project ''title'' Unknown,
      start_date = series_get (columns projects) project ''startDate'' Unknown,
      end_date = series_get (columns projects) project ''endDate'' Unknown,
      coordinator_name = name,
      coordinator_country = country,
      coordinator_city = city\<rparr>"

text \<open>Lines 134 to 164: one row for each coordinator, or the one row saying there is none.\<close>

definition rows_for :: "dataframe \<Rightarrow> cell list \<Rightarrow> real \<Rightarrow> dataframe \<Rightarrow> result_row list" where
  "rows_for projects project sim_score coordinators =
     (if \<not> empty coordinators
      then map (\<lambda>org. base_row projects project sim_score
                         (series_get (columns coordinators) org ''name'' Unknown)
                         (series_get (columns coordinators) org ''country'' Unknown)
                         (series_get (columns coordinators) org ''city'' Unknown))
               (rows coordinators)
      else [base_row projects project sim_score (Str ''None found'') (Str []) (Str [])])"

text \<open>The body of the loop for one ranked index.\<close>

definition match_rows :: "dataframe \<Rightarrow> dataframe \<Rightarrow> real list \<Rightarrow> nat \<Rightarrow> error + result_row list" where
  "match_rows projects orgs sims idx =
     (let project = rows projects ! idx; sim_score = sims ! idx
      in case find_project_coordinators orgs (project_id_of projects project) of
           Inl e \<Rightarrow> Inl e
         | Inr coordinators \<Rightarrow> Inr (rows_for projects project sim_score coordinators))"

text \<open>The loop over the ranked indices; an exception in one iteration ends the function.\<close>

fun collect_rows :: "dataframe \<Rightarrow> dataframe \<Rightarrow> real list \<Rightarrow> nat list \<Rightarrow> error + result_row list" where
  "collect_rows projects orgs sims [] = Inr []"
| "collect_rows projects orgs sims (idx # rest) =
     (case match_rows projects orgs sims idx of
        Inl e \<Rightarrow> Inl e
      | Inr rs \<Rightarrow>
          (case collect_rows projects orgs sims rest of
             Inl e \<Rightarrow> Inl e
           | Inr rs' \<Rightarrow> Inr (rs @ rs')))"

definition assemble ::
  "library \<Rightarrow> dataframe \<Rightarrow> dataframe \<Rightarrow> real list \<Rightarrow> int \<Rightarrow> error + result_row list" where
  "assemble lib projects orgs sims n_top =
     collect_rows projects orgs sims (top_indices lib sims n_top)"

section \<open>The pipeline\<close>

text \<open>
  Lines 72 to 166 of \<^verbatim>\<open>find_coordinators\<close>, on the two frames in use. The result is
  \<open>Inl\<close> for an exception, \<open>Inr None\<close> for the bare \<^verbatim>\<open>return\<close> and
  \<open>Inr (Some results)\<close> for the list returned. What the function prints is left out, and
  the combined text is passed on instead of being stored as a column of the projects frame.
\<close>

definition find_coordinators_core ::
  "library \<Rightarrow> dataframe \<Rightarrow> dataframe \<Rightarrow> string \<Rightarrow> int \<Rightarrow> error + result_row list option" where
  "find_coordinators_core lib projects orgs query n_top =
     (case combined_text lib projects of
        None \<Rightarrow> Inr None
      | Some docs \<Rightarrow>
          (case similarities lib docs query of
             Inl e \<Rightarrow> Inl e
           | Inr sims \<Rightarrow>
               (case assemble lib projects orgs sims n_top of
                  Inl e \<Rightarrow> Inl e
                | Inr results \<Rightarrow> Inr (Some results))))"

text \<open>
  The whole function. \<open>loaded\<close> is what \<^verbatim>\<open>load_data\<close> gives: an exception, the pair
  \<^verbatim>\<open>(None, None)\<close>, or the two frames. \<open>reread\<close> is what reading the two comma-separated
  files of lines 69 and 70 gives.
\<close>

definition find_coordinators ::
  "library \<Rightarrow> error + (dataframe \<times> dataframe) option \<Rightarrow> error + dataframe \<times> dataframe
     \<Rightarrow> string \<Rightarrow> int \<Rightarrow> error + result_row list option" where
  "find_coordinators lib loaded reread query n_top =
     (case loaded of
        Inl e \<Rightarrow> Inl e
      | Inr None \<Rightarrow> Inr None
      | Inr (Some (projects_df, orgs_df)) \<Rightarrow>
          if ''title'' \<notin> set (columns projects_df) \<and> length (columns projects_df) = 1
          then (case reread of
                  Inl e \<Rightarrow> Inl e
                | Inr (p, orgs) \<Rightarrow> find_coordinators_core lib p orgs query n_top)
          else find_coordinators_core lib projects_df orgs_df query n_top)"

section \<open>A library for the examples\<close>

text \<open>
  The examples run the model with the three functions below. Each of them agrees with the
  library function it stands for on the inputs of the examples, and no theorem about every
  input depends on them.

  The analyzer, for ASCII text: the text lower-cased, the maximal runs of two or more
  letters, digits and underscores (the pattern \<^verbatim>\<open>\b\w\w+\b\<close>), without the words of a
  stop list. The stop list of the examples holds those of scikit-learn's English stop words
  that the examples could contain.
\<close>

definition is_word_char :: "char \<Rightarrow> bool" where
  "is_word_char c =
     (c \<in> set ''abcdefghijklmnopqrstuvwxyzABCDEFGHIJKLMNOPQRSTUVWXYZ0123456789_'')"

fun word_runs :: "string \<Rightarrow> string \<Rightarrow> string list" where
  "word_runs cur [] = (if cur = [] then [] else [cur])"
| "word_runs cur (c # cs) =
     (if is_word_char c then word_runs (cur @ [c]) cs
      else (if cur = [] then [] else [cur]) @ word_runs [] cs)"

definition tokenize :: "string \<Rightarrow> string list" where
  "tokenize s = filter (\<lambda>w. 2 \<le> length w) (word_runs [] (lower s))"

definition analyze :: "string list \<Rightarrow> string \<Rightarrow> string list" where
  "analyze stop s = filter (\<lambda>w. w \<notin> set stop) (tokenize s)"

definition example_stop_words :: "string list" where
  "example_stop_words = [''a'', ''an'', ''and'', ''for'', ''of'', ''the'']"

text \<open>
  \<^verbatim>\<open>str\<close> of a number, for an integer of fewer than 17 digits: its decimal digits,
  followed by \<^verbatim>\<open>.0\<close> for a \<^verbatim>\<open>float64\<close>. Other numbers are outside the examples (the
  function gives them the empty string, which is not what \<^verbatim>\<open>str\<close> prints).
\<close>

definition digit_char :: "nat \<Rightarrow> char" where
  "digit_char d = ''0123456789'' ! d"

fun show_nat_fuel :: "nat \<Rightarrow> nat \<Rightarrow> string" where
  "show_nat_fuel 0 n = [digit_char (n mod 10)]"
| "show_nat_fuel (Suc k) n =
     (if n < 10 then [digit_char n] else show_nat_fuel k (n div 10) @ [digit_char (n mod 10)])"

text \<open>
  Decimal digits of a natural number; \<open>n\<close> itself bounds the number of digits, so the
  recursion is structural on a counter that never runs out.
\<close>

definition show_nat :: "nat \<Rightarrow> string" where
  "show_nat n = show_nat_fuel n n"

definition show_int :: "int \<Rightarrow> string" where
  "show_int i = (if i < 0 then CHR ''-'' # show_nat (nat (- i)) else show_nat (nat i))"

definition decimal_str :: "bool \<Rightarrow> real \<Rightarrow> string" where
  "decimal_str fl x =
     (if of_int \<lfloor>x\<rfloor> = x \<and> \<bar>x\<bar> < 10 ^ 16
      then (if fl then show_int \<lfloor>x\<rfloor> @ ''.0'' else show_int \<lfloor>x\<rfloor>)
      else [])"

text \<open>
  A sort that meets the contract of \<^verbatim>\<open>argsort\<close>: the stable one, which keeps equal values
  in index order (numpy's \<^verbatim>\<open>kind='stable'\<close>, and the order of the insertion sort that its
  default kind runs on short arrays).
\<close>

definition insertion_argsort :: "real list \<Rightarrow> nat list" where
  "insertion_argsort xs = sort_key (\<lambda>i. xs ! i) [0..<length xs]"

definition example_library :: library where
  "example_library =
     \<lparr>analyzer = analyze example_stop_words, num_str = decimal_str,
      argsort = insertion_argsort\<rparr>"

section \<open>Example tables\<close>

text \<open>
  The scenario of the specification, section 8, with a second coordinator for the third
  project: three projects, of which the first has one coordinator, the second none and the
  third two coordinators and a partner.
\<close>

definition example_projects :: dataframe where
  "example_projects =
     \<lparr>columns = [''id'', ''title''],
      rows = [[Str ''P1'', Str ''AI for climate modeling''],
              [Str ''P2'', Str ''Battery recycling chemistry''],
              [Str ''P3'', Str ''Quantum sensor networks'']]\<rparr>"

definition example_orgs :: dataframe where
  "example_orgs =
     \<lparr>columns = [''projectID'', ''name'', ''role'', ''country''],
      rows = [[Str ''P1'', Str ''OrgA'', Str ''Coordinator'', Str ''DE''],
              [Str ''P3'', Str ''OrgB'', Str ''coordinator'', Str ''FR''],
              [Str ''P3'', Str ''OrgC'', Str ''partner'', Str ''IT''],
              [Str ''P3'', Str ''OrgD'', Str ''COORDINATOR'', Null]]\<rparr>"

text \<open>The rows expected for the scenario when the similarities are 1/2, 0 and 1/4.\<close>

definition example_results :: "result_row list" where
  "example_results =
     [\<lparr>similarity_score = 1 / 2, project_id = Str ''P1'', project_acronym = Str ''Unknown'',
       project_title = Str ''AI for climate modeling'', start_date = Str ''Unknown'',
       end_date = Str ''Unknown'', coordinator_name = Str ''OrgA'',
       coordinator_country = Str ''DE'', coordinator_city = Str ''Unknown''\<rparr>,
      \<lparr>similarity_score = 1 / 4, project_id = Str ''P3'', project_acronym = Str ''Unknown'',
       project_title = Str ''Quantum sensor networks'', start_date = Str ''Unknown'',
       end_date = Str ''Unknown'', coordinator_name = Str ''OrgB'',
       coordinator_country = Str ''FR'', coordinator_city = Str ''Unknown''\<rparr>,
      \<lparr>similarity_score = 1 / 4, project_id = Str ''P3'', project_acronym = Str ''Unknown'',
       project_title = Str ''Quantum sensor networks'', start_date = Str ''Unknown'',
       end_date = Str ''Unknown'', coordinator_name = Str ''OrgD'',
       coordinator_country = Null, coordinator_city = Str ''Unknown''\<rparr>,
      \<lparr>similarity_score = 0, project_id = Str ''P2'', project_acronym = Str ''Unknown'',
       project_title = Str ''Battery recycling chemistry'', start_date = Str ''Unknown'',
       end_date = Str ''Unknown'', coordinator_name = Str ''None found'',
       coordinator_country = Str [], coordinator_city = Str []\<rparr>]"

text \<open>
  Organizations tables without the linkage column, and with a role column that holds no
  string; projects tables without any of the three text columns.
\<close>

definition orgs_without_key :: dataframe where
  "orgs_without_key = \<lparr>columns = [''name''], rows = [[Str ''OrgA'']]\<rparr>"

definition orgs_unnamed_roles :: dataframe where
  "orgs_unnamed_roles =
     \<lparr>columns = [''projectID'', ''name'', ''role''], rows = [[Str ''P1'', Str ''OrgA'', Null]]\<rparr>"

definition orgs_with_role_only :: dataframe where
  "orgs_with_role_only =
     \<lparr>columns = [''name'', ''role''], rows = [[Str ''OrgA'', Str ''coordinator'']]\<rparr>"

definition untitled_projects :: dataframe where
  "untitled_projects =
     \<lparr>columns = [''id'', ''acronym''], rows = [[Str ''P1'', Str ''AICM'']]\<rparr>"

definition dated_projects :: dataframe where
  "dated_projects =
     \<lparr>columns = [''id'', ''startDate'', ''endDate''],
      rows = [[Num 7, Str ''2021-01-01'', Str ''2024-12-31''], [Num 8, Null, Null]]\<rparr>"

text \<open>
  Two projects with one-word titles, the first with a coordinator, and the rows expected
  for the query \<^verbatim>\<open>alpha\<close>, whose similarities are 1 and 0.
\<close>

definition two_projects :: dataframe where
  "two_projects =
     \<lparr>columns = [''id'', ''title''],
      rows = [[Str ''A1'', Str ''alpha''], [Str ''B2'', Str ''beta'']]\<rparr>"

definition two_orgs :: dataframe where
  "two_orgs =
     \<lparr>columns = [''projectID'', ''name'', ''role''],
      rows = [[Str ''A1'', Str ''OrgA'', Str ''Coordinator'']]\<rparr>"

definition two_results :: "result_row list" where
  "two_results =
     [\<lparr>similarity_score = 1, project_id = Str ''A1'', project_acronym = Str ''Unknown'',
       project_title = Str ''alpha'', start_date = Str ''Unknown'',
       end_date = Str ''Unknown'', coordinator_name = Str ''OrgA'',
       coordinator_country = Str ''Unknown'', coordinator_city = Str ''Unknown''\<rparr>,
      \<lparr>similarity_score = 0, project_id = Str ''B2'', project_acronym = Str ''Unknown'',
       project_title = Str ''beta'', start_date = Str ''Unknown'',
       end_date = Str ''Unknown'', coordinator_name = Str ''None found'',
       coordinator_country = Str [], coordinator_city = Str []\<rparr>]"

text \<open>
  The rows expected for the two projects and a query that shares no term with them, and a
  projects table whose only text has no token.
\<close>

definition unmatched_results :: "result_row list" where
  "unmatched_results =
     [\<lparr>similarity_score = 0, project_id = Str ''B2'', project_acronym = Str ''Unknown'',
       project_title = Str ''beta'', start_date = Str ''Unknown'',
       end_date = Str ''Unknown'', coordinator_name = Str ''None found'',
       coordinator_country = Str [], coordinator_city = Str []\<rparr>,
      \<lparr>similarity_score = 0, project_id = Str ''A1'', project_acronym = Str ''Unknown'',
       project_title = Str ''alpha'', start_date = Str ''Unknown'',
       end_date = Str ''Unknown'', coordinator_name = Str ''OrgA'',
       coordinator_country = Str ''Unknown'', coordinator_city = Str ''Unknown''\<rparr>]"

definition lettered_projects :: dataframe where
  "lettered_projects = \<lparr>columns = [''id'', ''title''], rows = [[Str ''C3'', Str ''a'']]\<rparr>"

text \<open>
  A projects table with a missing title, a numeric topics column with a missing value
  (so a \<^verbatim>\<open>float64\<close> column) and no objective column.
\<close>

definition sparse_projects :: dataframe where
  "sparse_projects =
     \<lparr>columns = [''id'', ''title'', ''topics''],
      rows = [[Num 1, Str ''Alpha'', Num 7], [Num 2, Null, Null]]\<rparr>"

section \<open>Ranking\<close>

lemmas frame_defs = cell_of_def series_get_def column_values_def object_dtype_def
  float_dtype_def empty_def
lemmas resolve_defs = project_orgs_def find_project_coordinators_def lower_def lower_char_def
lemmas rank_defs = top_indices_def last_slice_def example_library_def insertion_argsort_def
lemmas text_defs = combined_text_def text_data_def text_cols_def text_column_def add_col_def
lemmas token_defs = example_library_def example_stop_words_def analyze_def tokenize_def
  lower_def lower_char_def is_word_char_def

lemma insertion_argsort_ok: "argsort_ok insertion_argsort"
  by (simp add: argsort_ok_def insertion_argsort_def)

lemma example_argsort_ok: "argsort_ok (argsort example_library)"
  by (simp add: example_library_def insertion_argsort_ok)

lemma length_argsort: "argsort_ok srt \<Longrightarrow> length (srt xs) = length xs"
  by (simp add: argsort_ok_def)

lemma set_argsort: "argsort_ok srt \<Longrightarrow> set (srt xs) = {0..<length xs}"
  by (simp add: argsort_ok_def)

lemma sorted_argsort: "argsort_ok srt \<Longrightarrow> sorted_wrt (\<lambda>i j. xs ! i \<le> xs ! j) (srt xs)"
  by (simp add: argsort_ok_def sorted_map)

lemma distinct_argsort:
  assumes "argsort_ok srt"
  shows "distinct (srt xs)"
proof -
  have "card (set (srt xs)) = length (srt xs)"
    using assms by (simp add: argsort_ok_def)
  then show ?thesis by (rule card_distinct)
qed

lemma last_slice_drop: "\<exists>k. last_slice n xs = drop k xs"
  by (auto simp: last_slice_def)

lemma top_indices_sorted:
  assumes "argsort_ok (argsort lib)"
  shows "sorted_wrt (\<lambda>i j. sims ! j \<le> sims ! i) (top_indices lib sims n_top)"
proof -
  obtain k where k: "last_slice n_top (argsort lib sims) = drop k (argsort lib sims)"
    using last_slice_drop by blast
  have "sorted_wrt (\<lambda>i j. sims ! i \<le> sims ! j) (drop k (argsort lib sims))"
    using sorted_argsort [OF assms] by (rule sorted_wrt_drop)
  then show ?thesis
    unfolding top_indices_def k by (simp add: sorted_wrt_rev)
qed

lemma set_top_indices:
  assumes "argsort_ok (argsort lib)"
  shows "set (top_indices lib sims n_top) \<subseteq> {0..<length sims}"
proof -
  obtain k where k: "last_slice n_top (argsort lib sims) = drop k (argsort lib sims)"
    using last_slice_drop by blast
  show ?thesis
    unfolding top_indices_def k using set_drop_subset [of k "argsort lib sims"]
    by (simp add: set_argsort [OF assms])
qed

lemma distinct_top_indices:
  assumes "argsort_ok (argsort lib)"
  shows "distinct (top_indices lib sims n_top)"
proof -
  obtain k where k: "last_slice n_top (argsort lib sims) = drop k (argsort lib sims)"
    using last_slice_drop by blast
  show ?thesis
    unfolding top_indices_def k by (simp add: distinct_argsort [OF assms])
qed

lemma length_top_indices:
  "argsort_ok (argsort lib) \<Longrightarrow>
     length (top_indices lib sims n_top) =
       (if 0 < n_top then min (nat n_top) (length sims) else length sims - nat (- n_top))"
  by (auto simp: top_indices_def last_slice_def length_argsort)

lemma top_indices_zero: "top_indices lib sims 0 = rev (argsort lib sims)"
  by (simp add: top_indices_def last_slice_def)

lemma top_indices_nonempty:
  assumes "argsort_ok (argsort lib)"
  shows "top_indices lib sims n_top \<noteq> [] \<longleftrightarrow> sims \<noteq> [] \<and> - int (length sims) < n_top"
proof -
  have "top_indices lib sims n_top \<noteq> [] \<longleftrightarrow> 0 < length (top_indices lib sims n_top)"
    by simp
  also have "\<dots> \<longleftrightarrow> sims \<noteq> [] \<and> - int (length sims) < n_top"
    unfolding length_top_indices [OF assms] by (cases sims) auto
  finally show ?thesis .
qed

section \<open>Order of the ranked matches\<close>

text \<open>
  Claim C3, as amended. Whatever order the index sort gives equal values, the ranked indices
  are in descending order of similarity: a match never has a lower similarity than a match
  ranked after it. The code fixes no order between matches of equal similarity.
\<close>

theorem ranking_order:
  assumes "argsort_ok (argsort lib)"
  shows "sorted_wrt (\<lambda>i j. sims ! j \<le> sims ! i) (top_indices lib sims n_top) \<and>
         (\<forall>a b. a < b \<longrightarrow> b < length (top_indices lib sims n_top) \<longrightarrow>
                sims ! (top_indices lib sims n_top ! b) \<le> sims ! (top_indices lib sims n_top ! a))"
  using top_indices_sorted [OF assms, of sims n_top]
  by (simp add: sorted_wrt_iff_nth_less)

theorem ranking_order_witness:
  "argsort_ok (argsort example_library) \<and>
   top_indices example_library [0, 1 / 4, 0, 1 / 2] 3 = [3, 1, 2] \<and>
   sorted_wrt (\<lambda>i j. [0, 1 / 4, 0, 1 / 2 :: real] ! j \<le> [0, 1 / 4, 0, 1 / 2] ! i)
     (top_indices example_library [0, 1 / 4, 0, 1 / 2] 3) \<and>
   [0, 1 / 4, 0, 1 / 2 :: real] ! (top_indices example_library [0, 1 / 4, 0, 1 / 2] 3 ! 2)
     \<le> [0, 1 / 4, 0, 1 / 2] ! (top_indices example_library [0, 1 / 4, 0, 1 / 2] 3 ! 0)"
proof -
  have t: "top_indices example_library [0, 1 / 4, 0, 1 / 2] 3 = [3, 1, 2]"
    by (simp add: rank_defs upt_rec)
  have l: "(0 :: nat) < 2" "2 < length (top_indices example_library [0, 1 / 4, 0, 1 / 2] 3)"
    by (simp_all add: t)
  from ranking_order [OF example_argsort_ok, of "[0, 1 / 4, 0, 1 / 2]" 3] l t example_argsort_ok
  show ?thesis by blast
qed

text \<open>
  The claim as stated fails: a sort that meets the contract of \<^verbatim>\<open>argsort\<close> and keeps
  equal values in index order, as numpy's does on an array of three values, ranks the
  similarities 1/2, 0 and 0 as rows 0, 2, 1: the tied rows 1 and 2 are in reverse corpus
  order.
\<close>

theorem tie_order_counterexample:
  "argsort_ok (argsort example_library) \<and>
   argsort example_library [1 / 2, 0, 0] = [1, 2, 0] \<and>
   top_indices example_library [1 / 2, 0, 0] 3 = [0, 2, 1]"
  using example_argsort_ok by (simp add: rank_defs upt_rec)

section \<open>The assembly loop\<close>

lemma rows_for_nonempty: "rows_for projects project s coordinators \<noteq> []"
  by (auto simp: rows_for_def empty_def)

lemma collect_rows_groups:
  "collect_rows projects orgs sims idxs = Inr results \<Longrightarrow>
     \<exists>groups. results = concat groups \<and> length groups = length idxs \<and>
       (\<forall>k < length idxs. match_rows projects orgs sims (idxs ! k) = Inr (groups ! k))"
proof (induction idxs arbitrary: results)
  case Nil
  then show ?case by simp
next
  case (Cons idx rest)
  from Cons.prems obtain rs rs' where
    m: "match_rows projects orgs sims idx = Inr rs" and
    c: "collect_rows projects orgs sims rest = Inr rs'" and
    r: "results = rs @ rs'"
    by (auto split: sum.splits)
  from Cons.IH [OF c] obtain groups where
    g: "rs' = concat groups" "length groups = length rest"
       "\<forall>k < length rest. match_rows projects orgs sims (rest ! k) = Inr (groups ! k)"
    by blast
  have "\<forall>k < length (idx # rest).
          match_rows projects orgs sims ((idx # rest) ! k) = Inr ((rs # groups) ! k)"
    using m g(3) by (auto simp: nth_Cons split: nat.splits)
  then show ?case using r g(1,2)
    by (intro exI [of _ "rs # groups"]) simp
qed

lemma match_rows_Inr:
  "match_rows projects orgs sims idx = Inr g \<Longrightarrow>
     \<exists>coordinators.
        find_project_coordinators orgs (project_id_of projects (rows projects ! idx)) = Inr coordinators \<and>
        g = rows_for projects (rows projects ! idx) (sims ! idx) coordinators"
  by (auto simp: match_rows_def Let_def split: sum.splits)

lemma resolved_empty:
  "find_project_coordinators orgs pid = Inr coordinators \<Longrightarrow>
     empty coordinators \<longleftrightarrow> rows coordinators = []"
  by (auto simp: find_project_coordinators_def project_orgs_def empty_def
      split: if_splits)

lemma rows_for_content:
  "rows_for projects project s coordinators =
     (if empty coordinators
      then [\<lparr>similarity_score = round4 s,
             project_id = series_get (columns projects) project ''projectID''
                            (series_get (columns projects) project ''id'' (Str ''Unknown'')),
             project_acronym = series_get (columns projects) project ''acronym'' (Str ''Unknown''),
             project_title = series_get (columns projects) project ''title'' (Str ''Unknown''),
             start_date = series_get (columns projects) project ''startDate'' (Str ''Unknown''),
             end_date = series_get (columns projects) project ''endDate'' (Str ''Unknown''),
             coordinator_name = Str ''None found'',
             coordinator_country = Str [],
             coordinator_city = Str []\<rparr>]
      else map (\<lambda>org.
             \<lparr>similarity_score = round4 s,
              project_id = series_get (columns projects) project ''projectID''
                             (series_get (columns projects) project ''id'' (Str ''Unknown'')),
              project_acronym = series_get (columns projects) project ''acronym'' (Str ''Unknown''),
              project_title = series_get (columns projects) project ''title'' (Str ''Unknown''),
              start_date = series_get (columns projects) project ''startDate'' (Str ''Unknown''),
              end_date = series_get (columns projects) project ''endDate'' (Str ''Unknown''),
              coordinator_name = series_get (columns coordinators) org ''name'' (Str ''Unknown''),
              coordinator_country =
                series_get (columns coordinators) org ''country'' (Str ''Unknown''),
              coordinator_city = series_get (columns coordinators) org ''city'' (Str ''Unknown'')\<rparr>)
             (rows coordinators))"
  by (simp add: rows_for_def base_row_def project_id_of_def Unknown_def)

text \<open>
  Claim C2. When the loop returns, its output is the concatenation of one group of rows
  for each ranked match, in rank order, and no group is empty, so no ranked project is
  dropped. Every row of the group of a match carries the rounded similarity and the
  identifier, acronym, title and dates of that project. When the resolver returns one or
  more coordinators for the project, the group has one row for each of them, in their
  order, with the name, country and city of that coordinator; when it returns none, the
  group is exactly one row whose coordinator name is \<^verbatim>\<open>None found\<close> and whose country and
  city are empty.
\<close>

theorem every_match_has_rows:
  assumes "assemble lib projects orgs sims n_top = Inr results"
  shows "\<exists>groups. results = concat groups \<and> length groups = length (top_indices lib sims n_top) \<and>
     (\<forall>k < length groups.
        let idx = top_indices lib sims n_top ! k;
            project = rows projects ! idx;
            pid = series_get (columns projects) project ''projectID''
                    (series_get (columns projects) project ''id'' (Str ''Unknown''));
            row = (\<lambda>name country city.
              \<lparr>similarity_score = round4 (sims ! idx),
               project_id = pid,
               project_acronym =
                 series_get (columns projects) project ''acronym'' (Str ''Unknown''),
               project_title = series_get (columns projects) project ''title'' (Str ''Unknown''),
               start_date = series_get (columns projects) project ''startDate'' (Str ''Unknown''),
               end_date = series_get (columns projects) project ''endDate'' (Str ''Unknown''),
               coordinator_name = name,
               coordinator_country = country,
               coordinator_city = city\<rparr>)
        in \<exists>coordinators.
             find_project_coordinators orgs pid = Inr coordinators \<and>
             groups ! k \<noteq> [] \<and>
             groups ! k =
               (if rows coordinators = []
                then [row (Str ''None found'') (Str []) (Str [])]
                else map (\<lambda>org. row (series_get (columns coordinators) org ''name'' (Str ''Unknown''))
                                     (series_get (columns coordinators) org ''country''
                                        (Str ''Unknown''))
                                     (series_get (columns coordinators) org ''city''
                                        (Str ''Unknown'')))
                         (rows coordinators)))"
proof -
  from assms obtain groups where
    g: "results = concat groups" "length groups = length (top_indices lib sims n_top)"
       "\<forall>k < length (top_indices lib sims n_top).
          match_rows projects orgs sims (top_indices lib sims n_top ! k) = Inr (groups ! k)"
    unfolding assemble_def by (blast dest: collect_rows_groups)
  have "let idx = top_indices lib sims n_top ! k;
            project = rows projects ! idx;
            pid = series_get (columns projects) project ''projectID''
                    (series_get (columns projects) project ''id'' (Str ''Unknown''));
            row = (\<lambda>name country city.
              \<lparr>similarity_score = round4 (sims ! idx),
               project_id = pid,
               project_acronym =
                 series_get (columns projects) project ''acronym'' (Str ''Unknown''),
               project_title = series_get (columns projects) project ''title'' (Str ''Unknown''),
               start_date = series_get (columns projects) project ''startDate'' (Str ''Unknown''),
               end_date = series_get (columns projects) project ''endDate'' (Str ''Unknown''),
               coordinator_name = name,
               coordinator_country = country,
               coordinator_city = city\<rparr>)
        in \<exists>coordinators.
             find_project_coordinators orgs pid = Inr coordinators \<and>
             groups ! k \<noteq> [] \<and>
             groups ! k =
               (if rows coordinators = []
                then [row (Str ''None found'') (Str []) (Str [])]
                else map (\<lambda>org. row (series_get (columns coordinators) org ''name'' (Str ''Unknown''))
                                     (series_get (columns coordinators) org ''country''
                                        (Str ''Unknown''))
                                     (series_get (columns coordinators) org ''city''
                                        (Str ''Unknown'')))
                         (rows coordinators))"
    if k: "k < length groups" for k
  proof -
    from g(2,3) k
    have "match_rows projects orgs sims (top_indices lib sims n_top ! k) = Inr (groups ! k)"
      by simp
    then obtain coordinators where
      c: "find_project_coordinators orgs
            (project_id_of projects (rows projects ! (top_indices lib sims n_top ! k))) =
          Inr coordinators"
         "groups ! k = rows_for projects (rows projects ! (top_indices lib sims n_top ! k))
                       (sims ! (top_indices lib sims n_top ! k)) coordinators"
      by (blast dest: match_rows_Inr)
    have e: "empty coordinators \<longleftrightarrow> rows coordinators = []"
      using c(1) by (rule resolved_empty)
    have n: "groups ! k \<noteq> []"
      unfolding c(2) by (rule rows_for_nonempty)
    show ?thesis
      unfolding Let_def
      using c(1) n c(2) e
      by (intro exI [of _ coordinators]) (simp add: rows_for_content project_id_of_def Unknown_def)
  qed
  with g(1,2) show ?thesis by blast
qed

section \<open>Evaluation of the scenario\<close>

lemma example_top_indices: "top_indices example_library [1 / 2, 0, 1 / 4] 3 = [0, 2, Suc 0]"
  by (simp add: rank_defs upt_rec)

lemma round4_values: "round4 (1 / 2) = 1 / 2" "round4 0 = 0" "round4 (1 / 4) = 1 / 4" "round4 1 = 1"
  by (simp_all add: round4_def round_half_even_def)

lemma example_coordinators:
  "find_project_coordinators example_orgs (Str ''P1'') =
     Inr \<lparr>columns = [''projectID'', ''name'', ''role'', ''country''],
          rows = [[Str ''P1'', Str ''OrgA'', Str ''Coordinator'', Str ''DE'']]\<rparr>"
  "find_project_coordinators example_orgs (Str ''P2'') =
     Inr \<lparr>columns = [''projectID'', ''name'', ''role'', ''country''], rows = []\<rparr>"
  "find_project_coordinators example_orgs (Str ''P3'') =
     Inr \<lparr>columns = [''projectID'', ''name'', ''role'', ''country''],
          rows = [[Str ''P3'', Str ''OrgB'', Str ''coordinator'', Str ''FR''],
                  [Str ''P3'', Str ''OrgD'', Str ''COORDINATOR'', Null]]\<rparr>"
  by (simp_all add: example_orgs_def resolve_defs frame_defs)

lemma example_project_ids:
  "project_id_of example_projects [Str ''P1'', Str ''AI for climate modeling''] = Str ''P1''"
  "project_id_of example_projects [Str ''P2'', Str ''Battery recycling chemistry''] = Str ''P2''"
  "project_id_of example_projects [Str ''P3'', Str ''Quantum sensor networks''] = Str ''P3''"
  by (simp_all add: example_projects_def project_id_of_def Unknown_def frame_defs)

lemma example_rows:
  "rows example_projects ! 0 = [Str ''P1'', Str ''AI for climate modeling'']"
  "rows example_projects ! Suc 0 = [Str ''P2'', Str ''Battery recycling chemistry'']"
  "rows example_projects ! 2 = [Str ''P3'', Str ''Quantum sensor networks'']"
  "columns example_projects = [''id'', ''title'']"
  by (simp_all add: example_projects_def)

lemma example_match_rows:
  "match_rows example_projects example_orgs [1 / 2, 0, 1 / 4] 0 = Inr [example_results ! 0]"
  "match_rows example_projects example_orgs [1 / 2, 0, 1 / 4] 2 =
     Inr [example_results ! Suc 0, example_results ! 2]"
  "match_rows example_projects example_orgs [1 / 2, 0, 1 / 4] (Suc 0) = Inr [example_results ! 3]"
  by (simp_all add: match_rows_def Let_def example_project_ids example_coordinators rows_for_def
      empty_def base_row_def example_rows round4_values series_get_def cell_of_def Unknown_def
      example_results_def)

lemma example_assemble:
  "assemble example_library example_projects example_orgs [1 / 2, 0, 1 / 4] 3 = Inr example_results"
  by (simp add: assemble_def example_top_indices example_match_rows)
     (simp add: example_results_def)

theorem every_match_has_rows_witness:
  "assemble example_library example_projects example_orgs [1 / 2, 0, 1 / 4] 3 = Inr example_results \<and>
   map coordinator_name example_results =
     [Str ''OrgA'', Str ''OrgB'', Str ''OrgD'', Str ''None found''] \<and>
   (\<exists>groups. example_results = concat groups \<and>
      length groups = length (top_indices example_library [1 / 2, 0, 1 / 4] 3) \<and>
      (\<forall>k < length groups.
         let idx = top_indices example_library [1 / 2, 0, 1 / 4] 3 ! k;
             project = rows example_projects ! idx;
             pid = series_get (columns example_projects) project ''projectID''
                     (series_get (columns example_projects) project ''id'' (Str ''Unknown''));
             row = (\<lambda>name country city.
               \<lparr>similarity_score = round4 ([1 / 2, 0, 1 / 4] ! idx),
                project_id = pid,
                project_acronym =
                  series_get (columns example_projects) project ''acronym'' (Str ''Unknown''),
                project_title =
                  series_get (columns example_projects) project ''title'' (Str ''Unknown''),
                start_date =
                  series_get (columns example_projects) project ''startDate'' (Str ''Unknown''),
                end_date =
                  series_get (columns example_projects) project ''endDate'' (Str ''Unknown''),
                coordinator_name = name,
                coordinator_country = country,
                coordinator_city = city\<rparr>)
         in \<exists>coordinators.
              find_project_coordinators example_orgs pid = Inr coordinators \<and>
              groups ! k \<noteq> [] \<and>
              groups ! k =
                (if rows coordinators = []
                 then [row (Str ''None found'') (Str []) (Str [])]
                 else map (\<lambda>org. row (series_get (columns coordinators) org ''name''
                                         (Str ''Unknown''))
                                      (series_get (columns coordinators) org ''country''
                                         (Str ''Unknown''))
                                      (series_get (columns coordinators) org ''city''
                                         (Str ''Unknown'')))
                          (rows coordinators))))"
proof -
  have n: "map coordinator_name example_results =
             [Str ''OrgA'', Str ''OrgB'', Str ''OrgD'', Str ''None found'']"
    by (simp add: example_results_def)
  from every_match_has_rows [OF example_assemble] example_assemble n show ?thesis
    by blast
qed

section \<open>Combined text\<close>

lemma length_text_column: "length (text_column lib df c) = length (rows df)"
  by (simp add: text_column_def column_values_def)

lemma cell_text_case:
  "cell_text lib fl v = (case v of Null \<Rightarrow> [] | Str s \<Rightarrow> s | Num x \<Rightarrow> num_str lib fl x)"
  by (cases v) simp_all

lemma text_column_nth:
  "i < length (rows df) \<Longrightarrow>
     text_column lib df c ! i =
       (case cell_of (columns df) (rows df ! i) c of
          Null \<Rightarrow> [] | Str s \<Rightarrow> s | Num x \<Rightarrow> num_str lib (float_dtype df c) x)"
  by (simp add: text_column_def column_values_def cell_text_case)

lemma foldl_add_col:
  assumes "length t = n" and "\<forall>col \<in> set ts. length col = n"
  shows "length (foldl add_col t ts) = n \<and>
         (\<forall>i < n. foldl add_col t ts ! i =
                     foldl (\<lambda>a b. a @ '' '' @ b) (t ! i) (map (\<lambda>col. col ! i) ts))"
  using assms
proof (induction ts arbitrary: t)
  case Nil
  then show ?case by simp
next
  case (Cons col ts)
  have l: "length (add_col t col) = n"
    using Cons.prems by (simp add: add_col_def)
  have nth: "\<forall>i < n. add_col t col ! i = t ! i @ '' '' @ col ! i"
    using Cons.prems by (simp add: add_col_def)
  from Cons.IH [OF l] Cons.prems(2) nth show ?case by simp
qed

lemma join_space_foldl: "join_space (x # xs) = foldl (\<lambda>a b. a @ '' '' @ b) x xs"
proof (induction xs arbitrary: x)
  case Nil
  then show ?case by simp
next
  case (Cons y ys)
  have "foldl (\<lambda>a b. a @ '' '' @ b) (x @ '' '' @ y) ys = x @ '' '' @ foldl (\<lambda>a b. a @ '' '' @ b) y ys" for x
  proof (induction ys arbitrary: y)
    case Nil
    then show ?case by simp
  next
    case (Cons z zs)
    show ?case using Cons [of "y @ '' '' @ z"] by simp
  qed
  with Cons show ?case by simp
qed

lemma combined_text_None: "combined_text lib df = None \<longleftrightarrow> text_cols df = []"
  by (cases "text_cols df") (simp_all add: combined_text_def text_data_def)

lemma combined_text_Some:
  assumes "combined_text lib df = Some docs"
  shows "length docs = length (rows df) \<and>
         (\<forall>i < length (rows df).
            docs ! i = join_space (map (\<lambda>c. text_column lib df c ! i) (text_cols df)))"
proof -
  from assms obtain c cs where cs: "text_cols df = c # cs"
    by (cases "text_cols df") (auto simp: combined_text_def text_data_def)
  with assms have docs: "docs = foldl add_col (text_column lib df c) (map (text_column lib df) cs)"
    by (simp add: combined_text_def text_data_def)
  have "length docs = length (rows df) \<and>
        (\<forall>i < length (rows df). docs ! i =
           foldl (\<lambda>a b. a @ '' '' @ b) (text_column lib df c ! i)
             (map (\<lambda>col. col ! i) (map (text_column lib df) cs)))"
    unfolding docs by (rule foldl_add_col) (auto simp: length_text_column)
  then show ?thesis
    by (simp add: cs join_space_foldl comp_def)
qed

text \<open>
  Claim C8. When at least one of the columns title, objective and topics is present, the
  combined text exists, has one entry for each row, and the entry of a row is the
  concatenation, with single spaces between them, of what its cells in the present ones of
  these columns contribute, in that order: a string contributes itself, a missing value the
  empty string, and a number what \<^verbatim>\<open>str\<close> prints for it. An absent column contributes
  nothing, not even a separator.
\<close>

theorem combined_text_is_join:
  assumes "''title'' \<in> set (columns df) \<or> ''objective'' \<in> set (columns df)
           \<or> ''topics'' \<in> set (columns df)"
  shows "\<exists>docs. combined_text lib df = Some docs \<and> length docs = length (rows df) \<and>
           (\<forall>i < length (rows df).
              docs ! i =
                join_space
                  (map (\<lambda>c. case cell_of (columns df) (rows df ! i) c of
                               Null \<Rightarrow> []
                             | Str s \<Rightarrow> s
                             | Num x \<Rightarrow> num_str lib (float_dtype df c) x)
                       (filter (\<lambda>c. c \<in> set (columns df))
                          [''title'', ''objective'', ''topics''])))"
proof -
  from assms have "text_cols df \<noteq> []"
    by (auto simp: text_cols_def)
  then obtain docs where docs: "combined_text lib df = Some docs"
    using combined_text_None [of lib df] by (cases "combined_text lib df") auto
  from combined_text_Some [OF docs] show ?thesis
    using docs by (simp add: text_column_nth text_cols_def cong: map_cong)
qed

lemma show_int_7: "show_int 7 = ''7''"
  by code_simp

lemma decimal_str_7: "decimal_str True 7 = ''7.0''"
  by (simp add: decimal_str_def show_int_7)

lemma sparse_combined_text:
  "combined_text example_library sparse_projects = Some [''Alpha 7.0'', '' '']"
  by (simp add: sparse_projects_def text_defs frame_defs example_library_def decimal_str_7)

theorem combined_text_is_join_witness:
  "(''title'' \<in> set (columns sparse_projects) \<or> ''objective'' \<in> set (columns sparse_projects)
      \<or> ''topics'' \<in> set (columns sparse_projects)) \<and>
   combined_text example_library sparse_projects = Some [''Alpha 7.0'', '' ''] \<and>
   (\<exists>docs. combined_text example_library sparse_projects = Some docs \<and>
      length docs = length (rows sparse_projects) \<and>
      (\<forall>i < length (rows sparse_projects).
         docs ! i =
           join_space
             (map (\<lambda>c. case cell_of (columns sparse_projects) (rows sparse_projects ! i) c of
                          Null \<Rightarrow> []
                        | Str s \<Rightarrow> s
                        | Num x \<Rightarrow> num_str example_library (float_dtype sparse_projects c) x)
                  (filter (\<lambda>c. c \<in> set (columns sparse_projects))
                     [''title'', ''objective'', ''topics'']))))"
proof -
  have d: "''title'' \<in> set (columns sparse_projects) \<or> ''objective'' \<in> set (columns sparse_projects)
      \<or> ''topics'' \<in> set (columns sparse_projects)"
    by (simp add: sparse_projects_def)
  from combined_text_is_join [OF d, of example_library] d sparse_combined_text show ?thesis
    by blast
qed

section \<open>Coordinator resolution\<close>

lemma cell_eq_iff: "cell_eq a b \<longleftrightarrow> a = b \<and> a \<noteq> Null"
  by (cases a; cases b) auto

lemma str_lower_eq_iff: "str_lower c = Str t \<longleftrightarrow> (\<exists>s. c = Str s \<and> lower s = t)"
  by (cases c) auto

lemma resolution_KeyError:
  "''projectID'' \<notin> set (columns orgs) \<Longrightarrow>
     find_project_coordinators orgs pid = Inl (KeyError ''projectID'')"
  by (simp add: find_project_coordinators_def project_orgs_def)

lemma resolution_Inr:
  assumes "''projectID'' \<in> set (columns orgs)"
    and "''role'' \<notin> set (columns orgs) \<or> object_dtype orgs ''role''"
  shows "\<exists>found. find_project_coordinators orgs pid = Inr found"
  using assms by (auto simp: find_project_coordinators_def project_orgs_def)

text \<open>
  Claim C1, as amended. For an organizations table that has the \<^verbatim>\<open>projectID\<close> column and
  whose \<^verbatim>\<open>role\<close> column, when it has one, is a column of strings, resolution for the
  identifier \<open>x\<close> raises nothing. With a role column it returns exactly the rows whose
  \<^verbatim>\<open>projectID\<close> cell equals \<open>x\<close> (the same string or the same number, nothing changed
  in either; a missing value equals nothing) and whose role is a string that, lower-cased,
  is \<^verbatim>\<open>coordinator\<close>, in the order of the table. Without a role column it returns no row.
\<close>

theorem coordinator_resolution:
  assumes "''projectID'' \<in> set (columns orgs)"
    and "''role'' \<notin> set (columns orgs) \<or> object_dtype orgs ''role''"
  shows "\<exists>found. find_project_coordinators orgs x = Inr found \<and>
           rows found =
             (if ''role'' \<in> set (columns orgs)
              then filter (\<lambda>r. cell_of (columns orgs) r ''projectID'' = x \<and> x \<noteq> Null \<and>
                                 (\<exists>s. cell_of (columns orgs) r ''role'' = Str s \<and>
                                      lower s = ''coordinator''))
                          (rows orgs)
              else [])"
  using assms
  by (auto simp: find_project_coordinators_def project_orgs_def cell_eq_iff str_lower_eq_iff
      intro!: filter_cong)

theorem coordinator_resolution_witness:
  "''projectID'' \<in> set (columns example_orgs) \<and>
   object_dtype example_orgs ''role'' \<and>
   (\<exists>found. find_project_coordinators example_orgs (Str ''P3'') = Inr found \<and>
      rows found = [[Str ''P3'', Str ''OrgB'', Str ''coordinator'', Str ''FR''],
                    [Str ''P3'', Str ''OrgD'', Str ''COORDINATOR'', Null]] \<and>
      rows found =
        (if ''role'' \<in> set (columns example_orgs)
         then filter (\<lambda>r. cell_of (columns example_orgs) r ''projectID'' = Str ''P3'' \<and>
                            Str ''P3'' \<noteq> Null \<and>
                            (\<exists>s. cell_of (columns example_orgs) r ''role'' = Str s \<and>
                                 lower s = ''coordinator''))
                     (rows example_orgs)
         else []))"
proof -
  have k: "''projectID'' \<in> set (columns example_orgs)"
    by (simp add: example_orgs_def)
  have d: "object_dtype example_orgs ''role''"
    by (simp add: example_orgs_def frame_defs)
  then have d': "''role'' \<notin> set (columns example_orgs) \<or> object_dtype example_orgs ''role''"
    by simp
  from coordinator_resolution [OF k d', of "Str ''P3''"] k d show ?thesis
    by (auto simp: example_coordinators)
qed

text \<open>
  The claim as stated fails on two tables: without the \<^verbatim>\<open>projectID\<close> column (and without
  a role column) resolution raises \<^verbatim>\<open>KeyError\<close> where the claim promises no row and no
  failure, and with a role column that holds no string it raises \<^verbatim>\<open>AttributeError\<close>.
\<close>

theorem coordinator_resolution_counterexample:
  "find_project_coordinators orgs_without_key (Str ''P1'') = Inl (KeyError ''projectID'') \<and>
   find_project_coordinators orgs_unnamed_roles (Str ''P1'') =
     Inl (AttributeError ''Can only use .str accessor with string values!'')"
  by (simp add: orgs_without_key_def orgs_unnamed_roles_def resolve_defs frame_defs)

section \<open>Similarities\<close>

lemma similarities_Inr:
  "vocabulary lib docs \<noteq> [] \<Longrightarrow>
     \<exists>sims. similarities lib docs query = Inr sims \<and> length sims = length docs"
  by (simp add: similarities_def cosine_similarity_def)

lemma similarities_length:
  "similarities lib docs query = Inr sims \<Longrightarrow>
     length sims = length docs \<and> vocabulary lib docs \<noteq> []"
  by (auto simp: similarities_def cosine_similarity_def split: if_splits)

lemma similarities_Inl:
  "vocabulary lib docs = [] \<Longrightarrow>
     similarities lib docs query =
       Inl (ValueError ''empty vocabulary; perhaps the documents only contain stop words'')"
  by (simp add: similarities_def)

lemma vocabulary_docs: "vocabulary lib docs \<noteq> [] \<Longrightarrow> docs \<noteq> []"
  by (auto simp: vocabulary_def)

lemma vocabulary_nonempty:
  "d \<in> set docs \<Longrightarrow> analyzer lib d \<noteq> [] \<Longrightarrow> vocabulary lib docs \<noteq> []"
  by (auto simp: vocabulary_def)

lemma collect_rows_error:
  "idxs \<noteq> [] \<Longrightarrow> match_rows projects orgs sims (hd idxs) = Inl e \<Longrightarrow>
     collect_rows projects orgs sims idxs = Inl e"
  by (cases idxs) auto

lemma example_combined_text:
  "combined_text example_library example_projects =
     Some [''AI for climate modeling'', ''Battery recycling chemistry'', ''Quantum sensor networks'']"
  by (simp add: example_projects_def text_defs frame_defs)

lemma example_tokens:
  "analyzer example_library ''AI for climate modeling'' = [''ai'', ''climate'', ''modeling'']"
  by (simp add: token_defs)

section \<open>A table without the linkage column\<close>

text \<open>
  Claim C10. When the organizations table has no \<^verbatim>\<open>projectID\<close> column, resolution raises
  \<^verbatim>\<open>KeyError\<close> for every identifier. So when the run gets as far as the loop (the text
  columns give a corpus with a vocabulary) and there is a ranked match (\<open>n_top\<close> is above
  minus the number of rows), the body of the loop raises for the first ranked match and the
  whole function ends with that exception: it returns no rows, with or without sentinel.
  This holds whatever the analyzer, and for every index sort that meets the contract of
  \<^verbatim>\<open>argsort\<close>.
\<close>

theorem missing_projectID_raises:
  assumes "''projectID'' \<notin> set (columns orgs)"
    and "combined_text lib projects = Some docs"
    and "vocabulary lib docs \<noteq> []"
    and "- int (length (rows projects)) < n_top"
    and "argsort_ok (argsort lib)"
  shows "(\<forall>pid. find_project_coordinators orgs pid = Inl (KeyError ''projectID'')) \<and>
         (\<exists>sims. similarities lib docs query = Inr sims \<and> top_indices lib sims n_top \<noteq> [] \<and>
            match_rows projects orgs sims (hd (top_indices lib sims n_top)) =
              Inl (KeyError ''projectID'')) \<and>
         find_coordinators_core lib projects orgs query n_top = Inl (KeyError ''projectID'')"
proof -
  have r: "find_project_coordinators orgs pid = Inl (KeyError ''projectID'')" for pid
    using assms(1) by (rule resolution_KeyError)
  from assms(3) obtain sims where
    s: "similarities lib docs query = Inr sims" and l: "length sims = length docs"
    using similarities_Inr by blast
  have n: "length docs = length (rows projects)"
    using combined_text_Some [OF assms(2)] by simp
  have "sims \<noteq> []"
    using vocabulary_docs [OF assms(3)] l by auto
  then have t: "top_indices lib sims n_top \<noteq> []"
    using assms(4) l n by (simp add: top_indices_nonempty [OF assms(5)])
  have m: "match_rows projects orgs sims idx = Inl (KeyError ''projectID'')" for idx
    by (simp add: match_rows_def Let_def r)
  have "assemble lib projects orgs sims n_top = Inl (KeyError ''projectID'')"
    unfolding assemble_def using t m by (rule collect_rows_error)
  then have "find_coordinators_core lib projects orgs query n_top = Inl (KeyError ''projectID'')"
    by (simp add: find_coordinators_core_def assms(2) s)
  with r s t m show ?thesis by blast
qed

theorem missing_projectID_raises_witness:
  "''projectID'' \<notin> set (columns orgs_with_role_only) \<and>
   combined_text example_library example_projects =
     Some [''AI for climate modeling'', ''Battery recycling chemistry'', ''Quantum sensor networks''] \<and>
   vocabulary example_library [''AI for climate modeling'', ''Battery recycling chemistry'',
                  ''Quantum sensor networks''] \<noteq> [] \<and>
   - int (length (rows example_projects)) < 3 \<and>
   argsort_ok (argsort example_library) \<and>
   find_coordinators_core example_library example_projects orgs_with_role_only ''climate'' 3 =
     Inl (KeyError ''projectID'')"
proof -
  have k: "''projectID'' \<notin> set (columns orgs_with_role_only)"
    by (simp add: orgs_with_role_only_def)
  have v: "vocabulary example_library [''AI for climate modeling'', ''Battery recycling chemistry'',
                  ''Quantum sensor networks''] \<noteq> []"
    by (rule vocabulary_nonempty [of "''AI for climate modeling''"]) (simp_all add: example_tokens)
  have n: "- int (length (rows example_projects)) < 3"
    by (simp add: example_projects_def)
  from missing_projectID_raises [OF k example_combined_text v n example_argsort_ok, of "''climate''"]
    k example_combined_text v n example_argsort_ok
  show ?thesis by blast
qed

section \<open>No text column\<close>

text \<open>
  Claim C4, as amended. If none of the columns title, objective and topics is present in the
  projects table, no corpus is built, and the function raises nothing: it returns
  \<^verbatim>\<open>None\<close> (lines 83 to 85), whatever the organizations table, the query and \<open>n_top\<close>.
  The same holds for the whole function on the loaded tables when the projects table does
  not have exactly one column (with one column lines 67 to 70 read other files first).
\<close>

theorem no_text_column_returns_None:
  assumes "''title'' \<notin> set (columns projects)"
    and "''objective'' \<notin> set (columns projects)"
    and "''topics'' \<notin> set (columns projects)"
  shows "combined_text lib projects = None \<and>
         find_coordinators_core lib projects orgs query n_top = Inr None \<and>
         (if length (columns projects) = 1
          then find_coordinators lib (Inr (Some (projects, orgs))) (Inl e) query n_top = Inl e
          else find_coordinators lib (Inr (Some (projects, orgs))) reread query n_top = Inr None)"
proof -
  have "text_cols projects = []"
    using assms by (simp add: text_cols_def)
  then have c: "combined_text lib projects = None"
    by (simp add: combined_text_None)
  then have "find_coordinators_core lib projects orgs query n_top = Inr None"
    by (simp add: find_coordinators_core_def)
  with c assms(1) show ?thesis
    by (simp add: find_coordinators_def)
qed

theorem no_text_column_returns_None_witness:
  "''title'' \<notin> set (columns dated_projects) \<and>
   ''objective'' \<notin> set (columns dated_projects) \<and>
   ''topics'' \<notin> set (columns dated_projects) \<and>
   combined_text example_library dated_projects = None \<and>
   find_coordinators_core example_library dated_projects example_orgs ''climate'' 5 = Inr None \<and>
   find_coordinators example_library (Inr (Some (dated_projects, example_orgs)))
     (Inl (OtherError ''no file'')) ''climate'' 5 = Inr None"
proof -
  have c: "''title'' \<notin> set (columns dated_projects)"
    "''objective'' \<notin> set (columns dated_projects)"
    "''topics'' \<notin> set (columns dated_projects)"
    by (simp_all add: dated_projects_def)
  have l: "length (columns dated_projects) \<noteq> 1"
    by (simp add: dated_projects_def)
  from no_text_column_returns_None [OF c, of example_library example_orgs "''climate''" 5
      "OtherError ''no file''" "Inl (OtherError ''no file'')"] c l
  show ?thesis by simp
qed

text \<open>
  The claim as stated fails: on a projects table with the columns \<^verbatim>\<open>id\<close> and
  \<^verbatim>\<open>acronym\<close> only, the result is the value \<^verbatim>\<open>None\<close>, not an exception.
\<close>

theorem no_text_column_counterexample:
  "find_coordinators_core example_library untitled_projects example_orgs ''climate'' 5 = Inr None"
  by (simp add: find_coordinators_core_def untitled_projects_def text_defs)

section \<open>A query without a term of the vocabulary\<close>

lemma l2_normalize_zeros: "l2_normalize (replicate n 0) = replicate n 0"
proof -
  have "sum_list (map (\<lambda>x. x * x) (replicate n (0 :: real))) = 0"
    by (induction n) simp_all
  then show ?thesis by (simp add: l2_normalize_def)
qed

lemma dot_zeros: "dot (replicate n 0) v = 0"
proof -
  have "sum_list (map (\<lambda>(a, b). a * b) (zip (replicate n (0 :: real)) v)) = 0"
  proof (induction n arbitrary: v)
    case 0
    then show ?case by simp
  next
    case (Suc n)
    then show ?case by (cases v) simp_all
  qed
  then show ?thesis by (simp add: dot_def)
qed

lemma tfidf_row_unmatched:
  assumes "set (analyzer lib query) \<inter> set (vocabulary lib docs) = {}"
  shows "tfidf_row lib docs query = replicate (length (vocabulary lib docs)) 0"
proof -
  have "map (\<lambda>t. real (count_list (analyzer lib query) t) * idf lib docs t) (vocabulary lib docs) =
        map (\<lambda>t. 0) (vocabulary lib docs)"
    using assms by (intro map_cong) (auto simp: count_list_0_iff)
  then show ?thesis
    by (simp add: tfidf_row_def map_replicate_const l2_normalize_zeros)
qed

lemma similarities_unmatched:
  assumes "vocabulary lib docs \<noteq> []"
    and "set (analyzer lib query) \<inter> set (vocabulary lib docs) = {}"
  shows "similarities lib docs query = Inr (replicate (length docs) 0)"
  using assms(1)
  by (simp add: similarities_def cosine_similarity_def tfidf_row_unmatched [OF assms(2)]
      l2_normalize_zeros dot_zeros map_replicate_const)

section \<open>Scores of the rows\<close>

lemma round_half_even_bounds: "\<lfloor>x\<rfloor> \<le> round_half_even x \<and> round_half_even x \<le> \<lfloor>x\<rfloor> + 1"
  by (simp add: round_half_even_def Let_def)

lemma round_half_even_mono:
  assumes "x \<le> y"
  shows "round_half_even x \<le> round_half_even y"
proof (cases "\<lfloor>x\<rfloor> = \<lfloor>y\<rfloor>")
  case True
  have "x - of_int \<lfloor>y\<rfloor> \<le> y - of_int \<lfloor>y\<rfloor>"
    using assms by simp
  then show ?thesis
    unfolding round_half_even_def Let_def True by auto
next
  case False
  with assms have "\<lfloor>x\<rfloor> < \<lfloor>y\<rfloor>"
    using floor_mono [of x y] by linarith
  then have "round_half_even x \<le> \<lfloor>y\<rfloor>"
    using round_half_even_bounds [of x] by linarith
  then show ?thesis
    using round_half_even_bounds [of y] by linarith
qed

lemma round4_mono: "x \<le> y \<Longrightarrow> round4 x \<le> round4 y"
  unfolding round4_def
  by (intro divide_right_mono) (simp_all add: round_half_even_mono)

lemma match_rows_scores:
  "match_rows projects orgs sims idx = Inr rs \<Longrightarrow>
     \<forall>r \<in> set rs. similarity_score r = round4 (sims ! idx)"
  by (auto simp: match_rows_def Let_def rows_for_def base_row_def split: sum.splits if_splits)

lemma collect_rows_scores:
  "collect_rows projects orgs sims idxs = Inr rs \<Longrightarrow>
     \<forall>r \<in> set rs. \<exists>i \<in> set idxs. similarity_score r = round4 (sims ! i)"
proof (induction idxs arbitrary: rs)
  case Nil
  then show ?case by simp
next
  case (Cons idx rest)
  from Cons.prems obtain g rs' where
    m: "match_rows projects orgs sims idx = Inr g" and
    c: "collect_rows projects orgs sims rest = Inr rs'" and
    r: "rs = g @ rs'"
    by (auto split: sum.splits)
  from match_rows_scores [OF m] Cons.IH [OF c] r show ?case by auto
qed

lemma sorted_wrt_constant:
  "\<forall>r \<in> set rs. f r = (c :: real) \<Longrightarrow> sorted_wrt (\<lambda>a b. f b \<le> f a) rs"
  by (induction rs) auto

lemma collect_rows_sorted:
  assumes "sorted_wrt (\<lambda>i j. sims ! j \<le> sims ! i) idxs"
    and "collect_rows projects orgs sims idxs = Inr rs"
  shows "sorted_wrt (\<lambda>a b. similarity_score b \<le> similarity_score a) rs"
  using assms
proof (induction idxs arbitrary: rs)
  case Nil
  then show ?case by simp
next
  case (Cons idx rest)
  from Cons.prems(2) obtain g rs' where
    m: "match_rows projects orgs sims idx = Inr g" and
    c: "collect_rows projects orgs sims rest = Inr rs'" and
    r: "rs = g @ rs'"
    by (auto split: sum.splits)
  have g: "\<forall>a \<in> set g. similarity_score a = round4 (sims ! idx)"
    using match_rows_scores [OF m] .
  have 1: "sorted_wrt (\<lambda>a b. similarity_score b \<le> similarity_score a) g"
    using g by (rule sorted_wrt_constant)
  have 2: "sorted_wrt (\<lambda>a b. similarity_score b \<le> similarity_score a) rs'"
    using Cons.IH [OF _ c] Cons.prems(1) by simp
  have 3: "similarity_score b \<le> similarity_score a" if "a \<in> set g" "b \<in> set rs'" for a b
  proof -
    from collect_rows_scores [OF c] that(2) obtain j where
      j: "j \<in> set rest" "similarity_score b = round4 (sims ! j)"
      by blast
    from Cons.prems(1) j(1) have "sims ! j \<le> sims ! idx" by simp
    then show ?thesis
      using g that(1) j(2) by (simp add: round4_mono)
  qed
  from 1 2 3 show ?case
    unfolding r by (simp add: sorted_wrt_append)
qed

lemma assemble_sorted:
  assumes "argsort_ok (argsort lib)"
    and "assemble lib projects orgs sims n_top = Inr results"
  shows "sorted_wrt (\<lambda>a b. similarity_score b \<le> similarity_score a) results"
  using top_indices_sorted [OF assms(1)] assms(2)
  unfolding assemble_def by (rule collect_rows_sorted)

lemma core_Some:
  "find_coordinators_core lib projects orgs query n_top = Inr (Some results) \<Longrightarrow>
     \<exists>docs sims. combined_text lib projects = Some docs \<and> similarities lib docs query = Inr sims \<and>
       assemble lib projects orgs sims n_top = Inr results"
  by (auto simp: find_coordinators_core_def split: option.splits sum.splits)

lemma core_groups:
  assumes "find_coordinators_core lib projects orgs query n_top = Inr (Some results)"
  shows "\<exists>docs sims groups.
           combined_text lib projects = Some docs \<and> similarities lib docs query = Inr sims \<and>
           length sims = length (rows projects) \<and> rows projects \<noteq> [] \<and>
           results = concat groups \<and> length groups = length (top_indices lib sims n_top) \<and>
           (\<forall>k < length groups.
              match_rows projects orgs sims (top_indices lib sims n_top ! k) = Inr (groups ! k) \<and>
              groups ! k \<noteq> [])"
proof -
  from assms obtain docs sims where
    d: "combined_text lib projects = Some docs" and
    s: "similarities lib docs query = Inr sims" and
    a: "assemble lib projects orgs sims n_top = Inr results"
    by (blast dest: core_Some)
  have n: "length docs = length (rows projects)"
    using combined_text_Some [OF d] by simp
  from similarities_length [OF s] have l: "length sims = length docs" and "docs \<noteq> []"
    by (auto dest: vocabulary_docs)
  with n have ne: "rows projects \<noteq> []" by auto
  from a obtain groups where
    g: "results = concat groups" "length groups = length (top_indices lib sims n_top)"
       "\<forall>k < length (top_indices lib sims n_top).
          match_rows projects orgs sims (top_indices lib sims n_top ! k) = Inr (groups ! k)"
    unfolding assemble_def by (blast dest: collect_rows_groups)
  have "groups ! k \<noteq> []" if "k < length groups" for k
  proof -
    from g(2,3) that
    have "match_rows projects orgs sims (top_indices lib sims n_top ! k) = Inr (groups ! k)"
      by simp
    then obtain coordinators where
      "groups ! k = rows_for projects (rows projects ! (top_indices lib sims n_top ! k))
                      (sims ! (top_indices lib sims n_top ! k)) coordinators"
      by (blast dest: match_rows_Inr)
    then show ?thesis
      by (simp add: rows_for_nonempty)
  qed
  with d s l n ne g show ?thesis by auto
qed

text \<open>When resolution cannot fail, neither can the loop.\<close>

lemma collect_rows_Inr:
  assumes "\<forall>pid. \<exists>found. find_project_coordinators orgs pid = Inr found"
  shows "\<exists>rs. collect_rows projects orgs sims idxs = Inr rs"
proof (induction idxs)
  case Nil
  then show ?case by simp
next
  case (Cons idx rest)
  from assms obtain found where
    "find_project_coordinators orgs (project_id_of projects (rows projects ! idx)) = Inr found"
    by blast
  then have "\<exists>g. match_rows projects orgs sims idx = Inr g"
    by (simp add: match_rows_def Let_def)
  with Cons show ?case by auto
qed

lemma core_returns:
  assumes "combined_text lib projects = Some docs"
    and "vocabulary lib docs \<noteq> []"
    and "''projectID'' \<in> set (columns orgs)"
    and "''role'' \<notin> set (columns orgs) \<or> object_dtype orgs ''role''"
  shows "\<exists>results. find_coordinators_core lib projects orgs query n_top = Inr (Some results)"
proof -
  from assms(2) obtain sims where s: "similarities lib docs query = Inr sims"
    using similarities_Inr by blast
  have "\<forall>pid. \<exists>found. find_project_coordinators orgs pid = Inr found"
    using resolution_Inr [OF assms(3,4)] by blast
  then obtain rs where "assemble lib projects orgs sims n_top = Inr rs"
    unfolding assemble_def using collect_rows_Inr by blast
  then show ?thesis
    by (simp add: find_coordinators_core_def assms(1) s)
qed

section \<open>Evaluation of the two-project example\<close>

lemma two_combined_text: "combined_text example_library two_projects = Some [''alpha'', ''beta'']"
  by (simp add: two_projects_def text_defs frame_defs)

lemma two_tokens:
  "analyzer example_library ''alpha'' = [''alpha'']"
  "analyzer example_library ''beta'' = [''beta'']"
  "analyzer example_library ''gamma'' = [''gamma'']"
  "analyzer example_library ''a'' = []"
  by (simp_all add: token_defs)

lemma two_vocabulary: "vocabulary example_library [''alpha'', ''beta''] = [''alpha'', ''beta'']"
  by (simp add: vocabulary_def two_tokens)

lemma two_idf:
  "idf example_library [''alpha'', ''beta''] ''alpha'' = ln (3 / 2) + 1"
  "idf example_library [''alpha'', ''beta''] ''beta'' = ln (3 / 2) + 1"
  by (simp_all add: idf_def doc_freq_def two_tokens)

lemma idf_positive: "0 < ln (3 / 2 :: real) + 1"
proof -
  have "0 < ln (3 / 2 :: real)" by (rule ln_gt_zero) simp
  then show ?thesis by linarith
qed

lemma l2_normalize_axis:
  assumes "0 < c"
  shows "l2_normalize [c, 0] = [1, 0]" and "l2_normalize [0, c] = [0, 1]"
  using assms by (simp_all add: l2_normalize_def)

lemma two_tfidf:
  "tfidf_row example_library [''alpha'', ''beta''] ''alpha'' = [1, 0]"
  "tfidf_row example_library [''alpha'', ''beta''] ''beta'' = [0, 1]"
  by (simp_all add: tfidf_row_def two_vocabulary two_tokens two_idf
      l2_normalize_axis [OF idf_positive])

lemma two_similarities:
  "similarities example_library [''alpha'', ''beta''] ''alpha'' = Inr [1, 0]"
  by (simp add: similarities_def two_vocabulary cosine_similarity_def two_tfidf
      l2_normalize_def dot_def)

lemma two_top_indices:
  "top_indices example_library [1, 0] 2 = [0, Suc 0]"
  "top_indices example_library [1, 0] 0 = [0, Suc 0]"
  by (simp_all add: rank_defs upt_rec)

lemma two_coordinators:
  "find_project_coordinators two_orgs (Str ''A1'') =
     Inr \<lparr>columns = [''projectID'', ''name'', ''role''],
          rows = [[Str ''A1'', Str ''OrgA'', Str ''Coordinator'']]\<rparr>"
  "find_project_coordinators two_orgs (Str ''B2'') =
     Inr \<lparr>columns = [''projectID'', ''name'', ''role''], rows = []\<rparr>"
  by (simp_all add: two_orgs_def resolve_defs frame_defs)

lemma two_project_ids:
  "project_id_of two_projects [Str ''A1'', Str ''alpha''] = Str ''A1''"
  "project_id_of two_projects [Str ''B2'', Str ''beta''] = Str ''B2''"
  by (simp_all add: two_projects_def project_id_of_def Unknown_def frame_defs)

lemma two_rows:
  "rows two_projects ! 0 = [Str ''A1'', Str ''alpha'']"
  "rows two_projects ! Suc 0 = [Str ''B2'', Str ''beta'']"
  "columns two_projects = [''id'', ''title'']"
  by (simp_all add: two_projects_def)

lemma two_match_rows:
  "match_rows two_projects two_orgs [1, 0] 0 = Inr [two_results ! 0]"
  "match_rows two_projects two_orgs [1, 0] (Suc 0) = Inr [two_results ! Suc 0]"
  by (simp_all add: match_rows_def Let_def two_project_ids two_coordinators rows_for_def
      empty_def base_row_def two_rows round4_values series_get_def cell_of_def
      Unknown_def two_results_def)

lemma two_assemble:
  "assemble example_library two_projects two_orgs [1, 0] 2 = Inr two_results"
  "assemble example_library two_projects two_orgs [1, 0] 0 = Inr two_results"
  by (simp_all add: assemble_def two_top_indices two_match_rows) (simp_all add: two_results_def)

lemma two_core:
  "find_coordinators_core example_library two_projects two_orgs ''alpha'' 2 =
     Inr (Some two_results)"
  "find_coordinators_core example_library two_projects two_orgs ''alpha'' 0 =
     Inr (Some two_results)"
  by (simp_all add: find_coordinators_core_def two_combined_text two_similarities two_assemble)

section \<open>Scores along the output\<close>

text \<open>
  Claim C6. In every list of rows the function returns, the similarity score of a row is
  greater than or equal to the score of the row after it, for every index sort that meets
  the contract of \<^verbatim>\<open>argsort\<close>.
\<close>

theorem scores_non_increasing:
  assumes "argsort_ok (argsort lib)"
    and "find_coordinators_core lib projects orgs query n_top = Inr (Some results)"
  shows "\<forall>i. Suc i < length results \<longrightarrow>
           similarity_score (results ! Suc i) \<le> similarity_score (results ! i)"
proof -
  from assms(2) obtain sims where "assemble lib projects orgs sims n_top = Inr results"
    by (blast dest: core_Some)
  with assms(1) have "sorted_wrt (\<lambda>a b. similarity_score b \<le> similarity_score a) results"
    by (rule assemble_sorted)
  then show ?thesis
    by (simp add: sorted_wrt_iff_nth_less)
qed

theorem scores_non_increasing_witness:
  "argsort_ok (argsort example_library) \<and>
   find_coordinators_core example_library two_projects two_orgs ''alpha'' 2 =
     Inr (Some two_results) \<and>
   Suc 0 < length two_results \<and>
   similarity_score (two_results ! Suc 0) \<le> similarity_score (two_results ! 0)"
proof -
  have l: "Suc 0 < length two_results"
    by (simp add: two_results_def)
  from scores_non_increasing [OF example_argsort_ok two_core(1)] l two_core(1) example_argsort_ok
  show ?thesis by blast
qed

section \<open>The slice for zero\<close>

text \<open>
  Claim C9. With \<open>n_top = 0\<close> the slice \<^verbatim>\<open>[-0:]\<close> is the whole sorted list: when the
  function returns, every row of the corpus is ranked, each exactly once, and the output is
  the concatenation of one non-empty group of rows for each project of the corpus; it is
  never the empty list. This holds for every index sort that meets the contract of
  \<^verbatim>\<open>argsort\<close>.
\<close>

theorem top_zero_ranks_whole_corpus:
  assumes "argsort_ok (argsort lib)"
    and "find_coordinators_core lib projects orgs query 0 = Inr (Some results)"
  shows "\<exists>docs sims groups.
           combined_text lib projects = Some docs \<and> similarities lib docs query = Inr sims \<and>
           top_indices lib sims 0 = rev (argsort lib sims) \<and>
           distinct (top_indices lib sims 0) \<and>
           set (top_indices lib sims 0) = {0..<length (rows projects)} \<and>
           results = concat groups \<and> length groups = length (rows projects) \<and>
           (\<forall>k < length groups.
              match_rows projects orgs sims (top_indices lib sims 0 ! k) = Inr (groups ! k) \<and>
              groups ! k \<noteq> []) \<and>
           results \<noteq> []"
proof -
  from core_groups [OF assms(2)] obtain docs sims groups where
    c: "combined_text lib projects = Some docs" "similarities lib docs query = Inr sims"
       "length sims = length (rows projects)" "rows projects \<noteq> []"
       "results = concat groups" "length groups = length (top_indices lib sims 0)"
       "\<forall>k < length groups.
          match_rows projects orgs sims (top_indices lib sims 0 ! k) = Inr (groups ! k) \<and>
          groups ! k \<noteq> []"
    by blast
  have t: "top_indices lib sims 0 = rev (argsort lib sims)"
    by (rule top_indices_zero)
  have s: "set (top_indices lib sims 0) = {0..<length (rows projects)}"
    unfolding t using c(3) by (simp add: set_argsort [OF assms(1)])
  have l: "length groups = length (rows projects)"
    using c(3,6) unfolding t by (simp add: length_argsort [OF assms(1)])
  have "groups \<noteq> []" using l c(4) by auto
  then have "groups ! 0 \<in> set groups" "groups ! 0 \<noteq> []"
    using c(7) by auto
  then have "results \<noteq> []"
    unfolding c(5) by auto
  with c t s l distinct_top_indices [OF assms(1), of sims 0] show ?thesis by blast
qed

theorem top_zero_ranks_whole_corpus_witness:
  "argsort_ok (argsort example_library) \<and>
   find_coordinators_core example_library two_projects two_orgs ''alpha'' 0 =
     Inr (Some two_results) \<and>
   (\<exists>docs sims groups.
      combined_text example_library two_projects = Some docs \<and>
      similarities example_library docs ''alpha'' = Inr sims \<and>
      top_indices example_library sims 0 = rev (argsort example_library sims) \<and>
      distinct (top_indices example_library sims 0) \<and>
      set (top_indices example_library sims 0) = {0..<length (rows two_projects)} \<and>
      two_results = concat groups \<and> length groups = length (rows two_projects) \<and>
      (\<forall>k < length groups.
         match_rows two_projects two_orgs sims (top_indices example_library sims 0 ! k) =
           Inr (groups ! k) \<and>
         groups ! k \<noteq> []) \<and>
      two_results \<noteq> [])"
  using example_argsort_ok two_core(2)
    top_zero_ranks_whole_corpus [OF example_argsort_ok two_core(2)]
  by blast

text \<open>
  Claim C5 at \<open>n_top = 0\<close>: on the corpus of two projects the function returns rows for
  both projects, where the claim gives \<open>min 0 2 = 0\<close> projects.
\<close>

theorem top_zero_returns_two_projects:
  "find_coordinators_core example_library two_projects two_orgs ''alpha'' 0 =
     Inr (Some two_results) \<and>
   map project_id two_results = [Str ''A1'', Str ''B2''] \<and>
   min 0 (int (length (rows two_projects))) = 0"
proof -
  have "map project_id two_results = [Str ''A1'', Str ''B2'']"
    by (simp add: two_results_def)
  moreover have "min 0 (int (length (rows two_projects))) = 0"
    by simp
  ultimately show ?thesis
    using two_core(2) by blast
qed

text \<open>For a positive \<open>n_top\<close> the count of the claim holds.\<close>

lemma positive_top_count:
  "argsort_ok (argsort lib) \<Longrightarrow> 0 < n_top \<Longrightarrow>
     length (top_indices lib sims n_top) = min (nat n_top) (length sims) \<and>
     distinct (top_indices lib sims n_top)"
  by (simp add: length_top_indices distinct_top_indices)

section \<open>A query that shares no term with the corpus\<close>

lemma two_unmatched_similarities:
  "similarities example_library [''alpha'', ''beta''] ''gamma'' = Inr [0, 0]"
proof -
  have "similarities example_library [''alpha'', ''beta''] ''gamma'' =
        Inr (replicate (length [''alpha'', ''beta'']) 0)"
    by (rule similarities_unmatched) (simp_all add: two_vocabulary two_tokens)
  then show ?thesis by (simp add: numeral_2_eq_2)
qed

lemma unmatched_top_indices:
  "top_indices example_library [0, 0] 3 = [Suc 0, 0]"
  "top_indices example_library [0, 0] 1 = [Suc 0]"
  by (simp_all add: rank_defs upt_rec)

lemma unmatched_match_rows:
  "match_rows two_projects two_orgs [0, 0] (Suc 0) = Inr [unmatched_results ! 0]"
  "match_rows two_projects two_orgs [0, 0] 0 = Inr [unmatched_results ! Suc 0]"
  by (simp_all add: match_rows_def Let_def two_project_ids two_coordinators rows_for_def
      empty_def base_row_def two_rows round4_values series_get_def cell_of_def
      Unknown_def unmatched_results_def)

lemma unmatched_core:
  "find_coordinators_core example_library two_projects two_orgs ''gamma'' 1 =
     Inr (Some [unmatched_results ! 0])"
  by (simp add: find_coordinators_core_def two_combined_text two_unmatched_similarities
      assemble_def unmatched_top_indices unmatched_match_rows)

lemma lettered_core:
  "find_coordinators_core example_library lettered_projects two_orgs ''gamma'' 3 =
     Inl (ValueError ''empty vocabulary; perhaps the documents only contain stop words'')"
proof -
  have c: "combined_text example_library lettered_projects = Some [''a'']"
    by (simp add: lettered_projects_def text_defs frame_defs)
  have "vocabulary example_library [''a''] = []"
    by (simp add: vocabulary_def two_tokens)
  then show ?thesis
    by (simp add: find_coordinators_core_def c similarities_Inl)
qed

lemma keyless_core:
  "find_coordinators_core example_library two_projects orgs_without_key ''gamma'' 3 =
     Inl (KeyError ''projectID'')"
proof -
  have "match_rows two_projects orgs_without_key [0, 0] (Suc 0) = Inl (KeyError ''projectID'')"
    by (simp add: match_rows_def Let_def resolution_KeyError orgs_without_key_def)
  then show ?thesis
    by (simp add: find_coordinators_core_def two_combined_text two_unmatched_similarities
        assemble_def unmatched_top_indices)
qed

text \<open>
  Claim C7, as amended. Take a corpus with a vocabulary (some document has a token), an
  organizations table on which resolution cannot fail (it has the \<^verbatim>\<open>projectID\<close> column,
  and its role column, if it has one, is a column of strings), and a query none of whose
  terms is in the vocabulary. Then nothing is raised, for any \<open>n_top\<close>: every similarity
  is 0, and the function returns the concatenation of one non-empty group of rows for each
  ranked project, all with the similarity score 0. For a positive \<open>n_top\<close> the ranked
  projects are \<open>min n_top (corpus size)\<close> distinct rows of the corpus. This holds whatever
  the analyzer, and for every index sort that meets the contract of \<^verbatim>\<open>argsort\<close>.
\<close>

theorem unmatched_query_scores_zero:
  assumes "argsort_ok (argsort lib)"
    and "combined_text lib projects = Some docs"
    and "vocabulary lib docs \<noteq> []"
    and "set (analyzer lib query) \<inter> set (vocabulary lib docs) = {}"
    and "''projectID'' \<in> set (columns orgs)"
    and "''role'' \<notin> set (columns orgs) \<or> object_dtype orgs ''role''"
  shows "\<exists>sims results groups.
           similarities lib docs query = Inr sims \<and> length sims = length (rows projects) \<and>
           (\<forall>i < length sims. sims ! i = 0) \<and>
           find_coordinators_core lib projects orgs query n_top = Inr (Some results) \<and>
           results = concat groups \<and>
           length groups = length (top_indices lib sims n_top) \<and>
           distinct (top_indices lib sims n_top) \<and>
           (\<forall>k < length groups.
              top_indices lib sims n_top ! k < length (rows projects) \<and>
              match_rows projects orgs sims (top_indices lib sims n_top ! k) = Inr (groups ! k) \<and>
              groups ! k \<noteq> []) \<and>
           (0 < n_top \<longrightarrow> length groups = min (nat n_top) (length (rows projects))) \<and>
           (\<forall>r \<in> set results. similarity_score r = 0)"
proof -
  let ?sims = "replicate (length docs) (0 :: real)"
  have s: "similarities lib docs query = Inr ?sims"
    using assms(3,4) by (rule similarities_unmatched)
  from core_returns [OF assms(2,3,5,6)] obtain results where
    r: "find_coordinators_core lib projects orgs query n_top = Inr (Some results)"
    by blast
  from core_groups [OF r] assms(2) s obtain groups where
    g: "length ?sims = length (rows projects)"
       "results = concat groups" "length groups = length (top_indices lib ?sims n_top)"
       "\<forall>k < length groups.
          match_rows projects orgs ?sims (top_indices lib ?sims n_top ! k) = Inr (groups ! k) \<and>
          groups ! k \<noteq> []"
    by auto
  have z: "\<forall>i < length ?sims. ?sims ! i = 0"
    by simp
  have b: "\<forall>k < length groups. top_indices lib ?sims n_top ! k < length (rows projects)"
    using set_top_indices [OF assms(1), of ?sims n_top] g(1,3)
    by (metis atLeastLessThan_iff nth_mem subsetD)
  have c: "0 < n_top \<longrightarrow> length groups = min (nat n_top) (length (rows projects))"
    using g(1,3) by (simp add: length_top_indices [OF assms(1)])
  have "assemble lib projects orgs ?sims n_top = Inr results"
    using r assms(2) s by (auto simp: find_coordinators_core_def split: sum.splits)
  then have "\<forall>r \<in> set results. \<exists>i \<in> set (top_indices lib ?sims n_top).
               similarity_score r = round4 (?sims ! i)"
    unfolding assemble_def by (rule collect_rows_scores)
  then have sc: "\<forall>r \<in> set results. similarity_score r = 0"
    using set_top_indices [OF assms(1), of ?sims n_top]
    by (fastforce simp: round4_values)
  from s g z b c sc r distinct_top_indices [OF assms(1), of ?sims n_top] show ?thesis
    by (intro exI [of _ ?sims] exI [of _ results] exI [of _ groups]) simp
qed

theorem unmatched_query_scores_zero_witness:
  "argsort_ok (argsort example_library) \<and>
   combined_text example_library two_projects = Some [''alpha'', ''beta''] \<and>
   vocabulary example_library [''alpha'', ''beta''] \<noteq> [] \<and>
   set (analyzer example_library ''gamma'') \<inter> set (vocabulary example_library [''alpha'', ''beta''])
     = {} \<and>
   ''projectID'' \<in> set (columns two_orgs) \<and>
   object_dtype two_orgs ''role'' \<and>
   find_coordinators_core example_library two_projects two_orgs ''gamma'' 1 =
     Inr (Some [unmatched_results ! 0]) \<and>
   (\<exists>sims results groups.
      similarities example_library [''alpha'', ''beta''] ''gamma'' = Inr sims \<and>
      length sims = length (rows two_projects) \<and>
      (\<forall>i < length sims. sims ! i = 0) \<and>
      find_coordinators_core example_library two_projects two_orgs ''gamma'' 1 =
        Inr (Some results) \<and>
      results = concat groups \<and>
      length groups = length (top_indices example_library sims 1) \<and>
      distinct (top_indices example_library sims 1) \<and>
      (\<forall>k < length groups.
         top_indices example_library sims 1 ! k < length (rows two_projects) \<and>
         match_rows two_projects two_orgs sims (top_indices example_library sims 1 ! k) =
           Inr (groups ! k) \<and>
         groups ! k \<noteq> []) \<and>
      (0 < (1 :: int) \<longrightarrow> length groups = min (nat 1) (length (rows two_projects))) \<and>
      (\<forall>r \<in> set results. similarity_score r = 0))"
proof -
  have v: "vocabulary example_library [''alpha'', ''beta''] \<noteq> []"
    by (simp add: two_vocabulary)
  have q: "set (analyzer example_library ''gamma'') \<inter>
           set (vocabulary example_library [''alpha'', ''beta'']) = {}"
    by (simp add: two_vocabulary two_tokens)
  have k: "''projectID'' \<in> set (columns two_orgs)"
    by (simp add: two_orgs_def)
  have d: "object_dtype two_orgs ''role''"
    by (simp add: two_orgs_def frame_defs)
  then have d': "''role'' \<notin> set (columns two_orgs) \<or> object_dtype two_orgs ''role''"
    by simp
  from unmatched_query_scores_zero [OF example_argsort_ok two_combined_text v q k d', of 1]
    example_argsort_ok two_combined_text v q k d unmatched_core
  show ?thesis by blast
qed

text \<open>
  The claim as stated fails on two inputs, both with a query that shares no term with the
  corpus. For a corpus whose only document is \<^verbatim>\<open>a\<close>, which is not empty but has no token
  of two characters, the function raises \<^verbatim>\<open>ValueError\<close>. For the corpus of two projects
  and an organizations table without the \<^verbatim>\<open>projectID\<close> column it raises \<^verbatim>\<open>KeyError\<close>.
\<close>

theorem unmatched_query_counterexample:
  "find_coordinators_core example_library lettered_projects two_orgs ''gamma'' 3 =
     Inl (ValueError ''empty vocabulary; perhaps the documents only contain stop words'') \<and>
   find_coordinators_core example_library two_projects orgs_without_key ''gamma'' 3 =
     Inl (KeyError ''projectID'')"
  using lettered_core keyless_core by blast

end
